theory Spec2Isabelle
  imports Complex_Main
begin

section \<open>Account store (src/bot/db.py)\<close>

text \<open>
  A \<^verbatim>\<open>Date\<close> column keeps a calendar day; days are numbered by integers, and
  \<^verbatim>\<open>datetime.now()\<close> is passed to every handler as the number \<open>today\<close> of the
  current day (\<^verbatim>\<open>+ timedelta(days=n)\<close> adds \<open>n\<close>; the time of day is dropped when
  the value is stored in the column).
\<close>

type_synonym date = int

text \<open>
  One row of the table \<^verbatim>\<open>users\<close>. The primary key \<^verbatim>\<open>chat_id\<close> is the key of the
  store below; every other column is nullable, so its value is an option.
  \<^verbatim>\<open>last_pay_id\<close> is a \<^verbatim>\<open>String\<close> column that the code only ever reads through
  \<^verbatim>\<open>int(...)\<close> and only ever writes with the integer \<^verbatim>\<open>payment_id\<close>: the field
  holds the integer that \<^verbatim>\<open>int\<close> reads back, and \<open>None\<close> when \<^verbatim>\<open>int\<close> raises
  (a NULL column).
\<close>

record user =
  username :: "string option"
  gpt4_rate :: "int option"
  gpt35_rate :: "int option"
  dalle_rate :: "int option"
  whisper_rate :: "int option"
  tts_rate :: "int option"
  rate_end_date :: "date option"
  rate_type :: "string option"
  is_free :: "bool option"
  last_pay_id :: "int option"
  default_model :: "string option"
  default_preset :: "string option"

type_synonym db = "int \<rightharpoonup> user"

text \<open>
  The exceptions of the model. \<open>DataError\<close> is what the commit raises when a value
  does not fit its column, \<open>IntegrityError\<close> what it raises on a second row with the
  same key, and \<open>TelegramError\<close> stands for whatever a call of the transport raises.
\<close>

datatype py_error =
    AttributeError | TypeError | KeyError | IndexError | ValueError
  | DataError | IntegrityError | TelegramError

text \<open>
  \<^verbatim>\<open>Column(Integer)\<close> on PostgreSQL is a signed 32-bit integer: \<^verbatim>\<open>chat_id\<close> and the
  five balances hold the values from \<open>- 2\<^sup>3\<^sup>1\<close> to \<open>2\<^sup>3\<^sup>1 - 1\<close>, and storing any other
  value raises.
\<close>

definition in_int4 :: "int \<Rightarrow> bool" where
  "in_int4 v = (- 2147483648 \<le> v \<and> v \<le> 2147483647)"

text \<open>The five balance columns, as the strings passed for \<^verbatim>\<open>rate_type\<close> and \<^verbatim>\<open>field_name\<close>.\<close>

datatype rate_field = Gpt4_rate | Gpt35_rate | Dalle_rate | Whisper_rate | Tts_rate

text \<open>The pairs \<^verbatim>\<open>(field_name, new_value)\<close> that the handlers pass to \<^verbatim>\<open>update_user_field\<close>.\<close>

datatype field_write =
    Rate rate_field int
  | Rate_end_date date
  | Rate_type string
  | Is_free bool
  | Last_pay_id int
  | Default_model string
  | Default_preset string

text \<open>\<^verbatim>\<open>user.__dict__.get(rate_type)\<close> and \<^verbatim>\<open>user.gpt4_rate\<close>, ... for a balance column.\<close>

fun get_rate :: "user \<Rightarrow> rate_field \<Rightarrow> int option" where
  "get_rate u Gpt4_rate = gpt4_rate u"
| "get_rate u Gpt35_rate = gpt35_rate u"
| "get_rate u Dalle_rate = dalle_rate u"
| "get_rate u Whisper_rate = whisper_rate u"
| "get_rate u Tts_rate = tts_rate u"

text \<open>\<^verbatim>\<open>setattr(user, field_name, new_value)\<close>.\<close>

fun setattr :: "user \<Rightarrow> field_write \<Rightarrow> user" where
  "setattr u (Rate Gpt4_rate v) = u\<lparr>gpt4_rate := Some v\<rparr>"
| "setattr u (Rate Gpt35_rate v) = u\<lparr>gpt35_rate := Some v\<rparr>"
| "setattr u (Rate Dalle_rate v) = u\<lparr>dalle_rate := Some v\<rparr>"
| "setattr u (Rate Whisper_rate v) = u\<lparr>whisper_rate := Some v\<rparr>"
| "setattr u (Rate Tts_rate v) = u\<lparr>tts_rate := Some v\<rparr>"
| "setattr u (Rate_end_date d) = u\<lparr>rate_end_date := Some d\<rparr>"
| "setattr u (Rate_type s) = u\<lparr>rate_type := Some s\<rparr>"
| "setattr u (Is_free b) = u\<lparr>is_free := Some b\<rparr>"
| "setattr u (Last_pay_id p) = u\<lparr>last_pay_id := Some p\<rparr>"
| "setattr u (Default_model s) = u\<lparr>default_model := Some s\<rparr>"
| "setattr u (Default_preset s) = u\<lparr>default_preset := Some s\<rparr>"

text \<open>Whether the commit accepts the value: only the balance columns are bounded.\<close>

fun fits_column :: "field_write \<Rightarrow> bool" where
  "fits_column (Rate f v) = in_int4 v"
| "fits_column w = True"


text \<open>\<^verbatim>\<open>DB.get_user(chat_id=...)\<close>: the row, or \<open>None\<close>.\<close>

definition get_user :: "db \<Rightarrow> int \<Rightarrow> user option" where
  "get_user db cid = db cid"


definition is_user_exists :: "db \<Rightarrow> int \<Rightarrow> bool" where
  "is_user_exists db cid = (get_user db cid \<noteq> None)"


text \<open>
  \<^verbatim>\<open>DB.update_user_field\<close>: the row is set and committed only when the query found
  one; the commit raises when the value does not fit the column, and then nothing is
  stored. The method returns nothing, so the result is the store after the call.
\<close>

definition update_user_field :: "db \<Rightarrow> int \<Rightarrow> field_write \<Rightarrow> py_error + db" where
  "update_user_field db cid w =
     (case db cid of
        None \<Rightarrow> Inr db
      | Some u \<Rightarrow> if fits_column w then Inr (db(cid \<mapsto> setattr u w)) else Inl DataError)"

text \<open>
  Calls of \<^verbatim>\<open>update_user_field\<close> one after the other for one \<^verbatim>\<open>chat_id\<close>, as the
  handlers write a renewal: the first call that raises ends the sequence, and what the
  calls before it have committed stays. The result is the store and the exception, if
  any.
\<close>

fun update_user_fields :: "db \<Rightarrow> int \<Rightarrow> field_write list \<Rightarrow> db \<times> py_error option" where
  "update_user_fields db cid [] = (db, None)"
| "update_user_fields db cid (w # ws) =
     (case update_user_field db cid w of
        Inl err \<Rightarrow> (db, Some err)
      | Inr db' \<Rightarrow> update_user_fields db' cid ws)"

section \<open>Quota policy: \<^verbatim>\<open>check_rate_limit\<close>\<close>

text \<open>
  What the reply of \<^verbatim>\<open>check_rate_limit\<close> says: the subscription has ended (first
  branch), or something has run out. The second branch always says that the tokens have
  run out; the third one chooses the text by \<^verbatim>\<open>rate_type\<close>.
\<close>

datatype resource_text = Tokens | Images | Transcription_time | Tts_symbols

datatype reply = Subscription_ended | Ran_out resource_text

fun exhausted_text :: "rate_field \<Rightarrow> resource_text" where
  "exhausted_text Gpt4_rate = Tokens"
| "exhausted_text Gpt35_rate = Tokens"
| "exhausted_text Dalle_rate = Images"
| "exhausted_text Whisper_rate = Transcription_time"
| "exhausted_text Tts_rate = Tts_symbols"

text \<open>
  The result is the pair \<^verbatim>\<open>(user, okay)\<close> of the source together with the reply sent
  (\<open>None\<close> when no branch fired). \<^verbatim>\<open>user.rate_end_date\<close> on a missing row and the
  comparison of a NULL date raise.
\<close>

definition check_rate_limit ::
  "db \<Rightarrow> date \<Rightarrow> int \<Rightarrow> rate_field \<Rightarrow> py_error + (user \<times> bool \<times> reply option)" where
  "check_rate_limit db today cid rt =
     (case get_user db cid of
        None \<Rightarrow> Inl AttributeError
      | Some u \<Rightarrow>
          (case rate_end_date u of
             None \<Rightarrow> Inl TypeError
           | Some d \<Rightarrow>
               if d < today then Inr (u, False, Some Subscription_ended)
               else (case get_rate u rt of
                  None \<Rightarrow> Inr (u, False, Some (Ran_out Tokens))
                | Some v \<Rightarrow>
                    if v = 0 then Inr (u, False, Some (Ran_out Tokens))
                    else if v \<le> 0 then Inr (u, False, Some (Ran_out (exhausted_text rt)))
                    else Inr (u, True, None))))"

section \<open>Tiers and renewal\<close>

text \<open>
  One entry of \<^verbatim>\<open>self.rates\<close>, a dict with the keys \<^verbatim>\<open>name\<close>, \<^verbatim>\<open>price\<close> and the five
  allotments; the fields carry the prefix \<open>r_\<close> because the allotment keys are spelt
  like the columns of \<open>user\<close>. \<^verbatim>\<open>self.rates\<close> itself is a dict in insertion order:
  the list of its items. Its keys are distinct, so
  \<^verbatim>\<open>self.rates[list(self.rates.keys())[k]]\<close> is the value of the \<open>k\<close>-th item.
\<close>

record rate =
  r_name :: string
  r_price :: int
  r_gpt4_rate :: int
  r_gpt35_rate :: int
  r_dalle_rate :: int
  r_whisper_rate :: int
  r_tts_rate :: int

type_synonym rates = "(string \<times> rate) list"

text \<open>Whether the five allotments of a tier fit the balance columns.\<close>

definition rate_fits :: "rate \<Rightarrow> bool" where
  "rate_fits r =
     (in_int4 (r_gpt4_rate r) \<and> in_int4 (r_gpt35_rate r) \<and> in_int4 (r_dalle_rate r)
      \<and> in_int4 (r_whisper_rate r) \<and> in_int4 (r_tts_rate r))"





text \<open>An external call, or a coroutine, that returns a value or raises.\<close>

datatype 'a outcome = Returned 'a | Raised



section \<open>Payment confirmation: the \<^verbatim>\<open>check_pay\<close> branch of \<^verbatim>\<open>handle_callback_inline_query\<close>\<close>

text \<open>
  The answer of the payment gateway: no \<^verbatim>\<open>State\<close> element, or a state with its
  \<^verbatim>\<open>Code\<close> and the amount \<^verbatim>\<open>Info.OutSum\<close>, a decimal number. (An answer whose amount
  is missing or is no number makes the conversion raise before anything is written; it
  is not among these values.)
\<close>

datatype op_state = No_state | State string rat

text \<open>
  \<^verbatim>\<open>int(float(...))\<close> of a decimal amount: the fraction is dropped, towards zero. (The
  amounts of a payment have a few decimals, which \<^verbatim>\<open>float\<close> keeps on the same side of
  the integers.)
\<close>

definition py_int :: "rat \<Rightarrow> int" where
  "py_int q = (if q < 0 then - \<lfloor>- q\<rfloor> else \<lfloor>q\<rfloor>)"

datatype pay_reply =
    Not_received_with_buttons
  | Already_paid
  | Payment_accepted string
  | Sum_printed int
  | Not_received

text \<open>The loop over \<^verbatim>\<open>self.rates\<close>: the first tier whose price is the amount.\<close>

fun find_rate :: "rates \<Rightarrow> int \<Rightarrow> (string \<times> rate) option" where
  "find_rate [] summ = None"
| "find_rate ((key, r) # rest) summ =
     (if r_price r = summ then Some (key, r) else find_rate rest summ)"

text \<open>
  The comparison under \<^verbatim>\<open>try\<close>: a missing row or a \<^verbatim>\<open>last_pay_id\<close> that \<^verbatim>\<open>int\<close>
  refuses raises, the exception is printed, and the handler goes on as for a new
  payment.
\<close>

definition already_paid :: "db \<Rightarrow> int \<Rightarrow> int \<Rightarrow> bool" where
  "already_paid db user_id payment_id =
     (case get_user db user_id of
        None \<Rightarrow> False
      | Some u \<Rightarrow> (case last_pay_id u of None \<Rightarrow> False | Some p \<Rightarrow> payment_id = p))"

text \<open>
  The branch itself. \<open>notice\<close> is the outcome of the send of the message that the
  invoice is already paid: that send and the \<^verbatim>\<open>return\<close> after it stand under the same
  \<^verbatim>\<open>try\<close> as the comparison, so when the send raises, the exception is printed and the
  handler goes on to the renewal. The result is the store after the handler with the
  exception that left it or the reply; the messages sent after the writes change
  nothing in the store.
\<close>

definition check_pay ::
  "rates \<Rightarrow> date \<Rightarrow> db \<Rightarrow> int \<Rightarrow> int \<Rightarrow> op_state \<Rightarrow> unit outcome
     \<Rightarrow> db \<times> (py_error + pay_reply)" where
  "check_pay rates today db user_id payment_id result notice =
     (case result of
        No_state \<Rightarrow> (db, Inr Not_received_with_buttons)
      | State code out_sum \<Rightarrow>
          if code = ''100'' then
            if already_paid db user_id payment_id \<and> notice \<noteq> Raised then (db, Inr Already_paid)
            else
              let summ = py_int out_sum in
              (case find_rate rates summ of
                 Some (key, rate) \<Rightarrow>
                   (case update_user_fields db user_id
                           [Rate Gpt4_rate (r_gpt4_rate rate),
                            Rate Gpt35_rate (r_gpt35_rate rate),
                            Rate Dalle_rate (r_dalle_rate rate),
                            Rate Whisper_rate (r_whisper_rate rate),
                            Rate Tts_rate (r_tts_rate rate),
                            Rate_end_date (today + 30),
                            Rate_type key,
                            Is_free False,
                            Last_pay_id payment_id] of
                      (db', Some err) \<Rightarrow> (db', Inl err)
                    | (db', None) \<Rightarrow> (db', Inr (Payment_accepted (r_name rate))))
               | None \<Rightarrow> (db, Inr (Sum_printed summ)))
          else (db, Inr Not_received))"

section \<open>Response streaming: the loop of \<^verbatim>\<open>prompt\<close>\<close>

text \<open>
  A Python \<^verbatim>\<open>str\<close> is a list of code points and \<^verbatim>\<open>len\<close> counts them.
  \<^verbatim>\<open>len(content.strip()) == 0\<close> holds when every code point is white space for
  \<^verbatim>\<open>str.strip\<close>.
\<close>

type_synonym str = "nat list"

definition isspace :: "nat \<Rightarrow> bool" where
  "isspace c =
     (c \<in> set [9, 10, 11, 12, 13, 28, 29, 30, 31, 32, 133, 160, 5760, 8232, 8233, 8239, 8287, 12288]
      \<or> (8192 \<le> c \<and> c \<le> 8202))"

definition is_blank :: "str \<Rightarrow> bool" where
  "is_blank content = list_all isspace content"

text \<open>
  Modelled from the spec: \<^verbatim>\<open>split_into_chunks\<close> of the module \<^verbatim>\<open>utils\<close>, which is
  not among the sources. The spec has the text split ``into fixed-size chunks at the
  transport's length cap'', in order; the cap is the first argument here. It is positive
  for a transport; with the cap 0 the model yields no chunk.
\<close>

function split_into_chunks :: "nat \<Rightarrow> str \<Rightarrow> str list" where
  "split_into_chunks cap txt =
     (if txt = [] \<or> cap = 0 then []
      else take cap txt # split_into_chunks cap (drop cap txt))"
  by pat_completeness auto
termination
  by (relation "measure (\<lambda>(cap, txt). length txt)") auto

declare split_into_chunks.simps [simp del]

text \<open>
  The other helpers of \<^verbatim>\<open>utils\<close> that the loop calls are parameters:
  \<^verbatim>\<open>is_direct_result\<close>, \<^verbatim>\<open>get_stream_cutoff_values\<close> (for the update at hand) and the
  length cap of \<^verbatim>\<open>split_into_chunks\<close>.
\<close>

record env =
  is_direct_result :: "str \<Rightarrow> bool"
  get_stream_cutoff_values :: "str \<Rightarrow> int"
  length_cap :: nat

text \<open>
  The second component of a stream item: the string \<^verbatim>\<open>"not_finished"\<close>, or the token
  count that \<^verbatim>\<open>int(tokens)\<close> reads.
\<close>

datatype tokens = Not_finished | Finished int

text \<open>
  What the transport answers to the calls of one iteration: the outcome of
  \<^verbatim>\<open>edit_message_with_retry\<close>, the id of the message that \<^verbatim>\<open>reply_text\<close> returns
  (\<open>None\<close> when it raises) and whether \<^verbatim>\<open>delete_message\<close> returns.
\<close>

datatype edit_result = Edit_ok | Retry_after nat | Timed_out | Edit_failed

datatype partial = Partial str tokens edit_result "nat option" bool

text \<open>
  The calls that the loop issues, in order. \<open>Edit\<close> carries the message id, the text and
  the \<^verbatim>\<open>markdown\<close> argument (\<open>None\<close> when the call does not pass it); the three sleeps
  are \<^verbatim>\<open>e.retry_after\<close>, \<^verbatim>\<open>0.5\<close> and \<^verbatim>\<open>0.01\<close> seconds.
\<close>

datatype action =
    Send str
  | Edit nat str "bool option"
  | Delete nat
  | Sleep_retry_after nat
  | Sleep_half
  | Sleep_short

text \<open>
  The loop variables \<^verbatim>\<open>i\<close>, \<^verbatim>\<open>prev\<close>, \<^verbatim>\<open>sent_message\<close> (its message id),
  \<^verbatim>\<open>backoff\<close>, \<^verbatim>\<open>stream_chunk\<close> and \<^verbatim>\<open>total_tokens\<close>.
\<close>

datatype loop_state = St nat str "nat option" int nat int

datatype step_result = Next loop_state "action list" | Return_direct_result

text \<open>
  One iteration of \<^verbatim>\<open>async for content, tokens in stream_response\<close>. Every
  \<^verbatim>\<open>continue\<close> is a \<open>Next\<close> that skips \<^verbatim>\<open>i += 1\<close> and the assignment of
  \<^verbatim>\<open>total_tokens\<close>.
\<close>

fun stream_step :: "env \<Rightarrow> loop_state \<Rightarrow> partial \<Rightarrow> step_result" where
  "stream_step e (St i prev sent_message backoff stream_chunk total_tokens)
       (Partial content0 tokens edit_res send_res delete_ok) =
     (if is_direct_result e content0 then Return_direct_result
      else if is_blank content0 then
        Next (St i prev sent_message backoff stream_chunk total_tokens) []
      else
        let stream_chunks = split_into_chunks (length_cap e) content0;
            content = (if length stream_chunks > 1 then last stream_chunks else content0)
        in
        if length stream_chunks > 1 \<and> stream_chunk \<noteq> length stream_chunks - 1 then
          Next (St i prev (case send_res of None \<Rightarrow> sent_message | Some m \<Rightarrow> Some m)
                  backoff (stream_chunk + 1) total_tokens)
            ((case sent_message of
                None \<Rightarrow> []
              | Some m \<Rightarrow> [Edit m (stream_chunks ! (length stream_chunks - 2)) None])
             @ [Send (if length content > 0 then content else [46, 46, 46])])
        else
          let cutoff = get_stream_cutoff_values e content + backoff in
          if i = 0 then
            (case sent_message of
               Some m \<Rightarrow>
                 if \<not> delete_ok then
                   Next (St i prev sent_message backoff stream_chunk total_tokens) [Delete m]
                 else
                   (case send_res of
                      None \<Rightarrow>
                        Next (St i prev sent_message backoff stream_chunk total_tokens)
                          [Delete m, Send content]
                    | Some m' \<Rightarrow>
                        Next (St (i + 1) prev (Some m') backoff stream_chunk
                                (case tokens of Not_finished \<Rightarrow> total_tokens | Finished n \<Rightarrow> n))
                          [Delete m, Send content])
             | None \<Rightarrow>
                 (case send_res of
                    None \<Rightarrow>
                      Next (St i prev sent_message backoff stream_chunk total_tokens)
                        [Send content]
                  | Some m' \<Rightarrow>
                      Next (St (i + 1) prev (Some m') backoff stream_chunk
                              (case tokens of Not_finished \<Rightarrow> total_tokens | Finished n \<Rightarrow> n))
                        [Send content]))
          else if abs (int (length content) - int (length prev)) > cutoff
                  \<or> tokens \<noteq> Not_finished then
            (case sent_message of
               None \<Rightarrow> Next (St i content sent_message (backoff + 5) stream_chunk total_tokens) []
             | Some m \<Rightarrow>
                 (case edit_res of
                    Edit_ok \<Rightarrow>
                      Next (St (i + 1) content sent_message backoff stream_chunk
                              (case tokens of Not_finished \<Rightarrow> total_tokens | Finished n \<Rightarrow> n))
                        [Edit m content (Some (tokens \<noteq> Not_finished)), Sleep_short]
                  | Retry_after d \<Rightarrow>
                      Next (St i content sent_message (backoff + 5) stream_chunk total_tokens)
                        [Edit m content (Some (tokens \<noteq> Not_finished)), Sleep_retry_after d]
                  | Timed_out \<Rightarrow>
                      Next (St i content sent_message (backoff + 5) stream_chunk total_tokens)
                        [Edit m content (Some (tokens \<noteq> Not_finished)), Sleep_half]
                  | Edit_failed \<Rightarrow>
                      Next (St i content sent_message (backoff + 5) stream_chunk total_tokens)
                        [Edit m content (Some (tokens \<noteq> Not_finished))]))
          else
            Next (St (i + 1) prev sent_message backoff stream_chunk
                    (case tokens of Not_finished \<Rightarrow> total_tokens | Finished n \<Rightarrow> n)) [])"

text \<open>
  The whole loop over the items that the stream yields: the loop variables at the end
  with the calls issued, or the early \<^verbatim>\<open>return\<close> on a direct result.
\<close>

datatype loop_result = Loop_done loop_state "action list" | Loop_returned "action list"

fun stream_loop :: "env \<Rightarrow> loop_state \<Rightarrow> action list \<Rightarrow> partial list \<Rightarrow> loop_result" where
  "stream_loop e st trace [] = Loop_done st trace"
| "stream_loop e st trace (p # ps) =
     (case stream_step e st p of
        Return_direct_result \<Rightarrow> Loop_returned trace
      | Next st' acts \<Rightarrow> stream_loop e st' (trace @ acts) ps)"

text \<open>The assignments before the loop.\<close>

definition initial_state :: loop_state where
  "initial_state = St 0 [] None 0 0 0"

text \<open>Reading the calls and the loop variables: which calls are edits, and \<^verbatim>\<open>prev\<close>.\<close>

fun is_edit :: "action \<Rightarrow> bool" where
  "is_edit (Edit m txt markdown) = True"
| "is_edit a = False"

fun prev_of :: "loop_state \<Rightarrow> str" where
  "prev_of (St i prev sent_message backoff stream_chunk total_tokens) = prev"

text \<open>The calls issued by one iteration, and the loop variables it leaves.\<close>

fun step_calls :: "step_result \<Rightarrow> action list" where
  "step_calls (Next st acts) = acts"
| "step_calls Return_direct_result = []"

fun step_state :: "step_result \<Rightarrow> loop_state option" where
  "step_state (Next st acts) = Some st"
| "step_state Return_direct_result = None"

section \<open>The billable handlers \<^verbatim>\<open>prompt\<close> and \<^verbatim>\<open>tts\<close>\<close>

text \<open>
  The statement that ends a billable handler,
  \<^verbatim>\<open>self.db.update_user_field(chat_id=update.message.from_user.id, field_name=f,
  new_value=user.f - amount)\<close>, where \<^verbatim>\<open>user\<close> is the row that \<^verbatim>\<open>check_rate_limit\<close>
  returned for \<^verbatim>\<open>update.effective_chat.id\<close>. A NULL balance makes the subtraction
  raise, and a difference outside the column makes the commit raise.
\<close>

definition debit :: "db \<Rightarrow> int \<Rightarrow> rate_field \<Rightarrow> user \<Rightarrow> int \<Rightarrow> py_error + db" where
  "debit db from_user_id f u amount =
     (case get_rate u f of
        None \<Rightarrow> Inl TypeError
      | Some balance \<Rightarrow> update_user_field db from_user_id (Rate f (balance - amount)))"



text \<open>
  Modelled from the spec: \<^verbatim>\<open>wrap_with_indicator\<close> of the module \<^verbatim>\<open>utils\<close>, which is
  not among the sources. It runs the coroutine while the chat action is shown; by the
  spec's error handling a generation failure is ``caught, logged, and reported to the
  user'' by the handler, so what the coroutine raises reaches the caller.
\<close>

definition wrap_with_indicator :: "'a outcome \<Rightarrow> 'a outcome" where
  "wrap_with_indicator coroutine = coroutine"

text \<open>
  The generation of \<^verbatim>\<open>prompt\<close>. With \<^verbatim>\<open>config["stream"]\<close> it is the list of items
  that the stream yields and whether the stream raises after them; without, it is the
  outcome of the coroutine \<^verbatim>\<open>_reply\<close>, which sets \<^verbatim>\<open>total_tokens\<close> and returns, or
  raises (in the generation call or while sending).
\<close>

datatype generation = Stream "partial list" bool | No_stream "int outcome"

datatype try_result = Early_return | Exception_raised | Total_tokens int

datatype prompt_reply =
    Denied "reply option"
  | Ignored
  | Direct_result_handled
  | Chat_fail
  | Answered

text \<open>
  \<^verbatim>\<open>prompt\<close>, from the lookup of the user on. \<open>chat_id\<close> is
  \<^verbatim>\<open>update.effective_chat.id\<close>, \<open>from_user_id\<close> is \<^verbatim>\<open>update.message.from_user.id\<close>,
  \<open>group_ignored\<close> says that the message of a group chat is dropped by the test of the
  trigger keyword, and \<open>tracker\<close> is the outcome of
  \<^verbatim>\<open>add_chat_request_to_usage_tracker\<close>. Whatever is raised under \<^verbatim>\<open>try\<close> ends in
  the reply \<^verbatim>\<open>chat_fail\<close>.
\<close>

definition prompt ::
  "env \<Rightarrow> date \<Rightarrow> db \<Rightarrow> int \<Rightarrow> int \<Rightarrow> bool \<Rightarrow> generation \<Rightarrow> unit outcome
     \<Rightarrow> py_error + (db \<times> prompt_reply)" where
  "prompt e today db chat_id from_user_id group_ignored gen tracker =
     (case get_user db chat_id of
        None \<Rightarrow> Inl AttributeError
      | Some u0 \<Rightarrow>
          (case check_rate_limit db today chat_id
                  (if rate_type u0 = Some ''gpt-4'' then Gpt4_rate else Gpt35_rate) of
             Inl err \<Rightarrow> Inl err
           | Inr (u, okay, r) \<Rightarrow>
               if \<not> okay then Inr (db, Denied r)
               else if group_ignored then Inr (db, Ignored)
               else
                 (case
                    (case gen of
                       Stream items raises \<Rightarrow>
                         (case stream_loop e initial_state [] items of
                            Loop_returned trace \<Rightarrow> Early_return
                          | Loop_done (St i prev sent_message backoff stream_chunk total_tokens) trace \<Rightarrow>
                              if raises then Exception_raised else Total_tokens total_tokens)
                     | No_stream reply \<Rightarrow>
                         (case wrap_with_indicator reply of
                            Raised \<Rightarrow> Exception_raised
                          | Returned total_tokens \<Rightarrow> Total_tokens total_tokens)) of
                    Early_return \<Rightarrow> Inr (db, Direct_result_handled)
                  | Exception_raised \<Rightarrow> Inr (db, Chat_fail)
                  | Total_tokens total_tokens \<Rightarrow>
                      (case tracker of
                         Raised \<Rightarrow> Inr (db, Chat_fail)
                       | Returned x \<Rightarrow>
                           (case debit db from_user_id
                                   (if rate_type u = Some ''gpt-4'' then Gpt4_rate else Gpt35_rate)
                                   u total_tokens of
                              Inl err \<Rightarrow> Inr (db, Chat_fail)
                            | Inr db' \<Rightarrow> Inr (db', Answered))))))"

datatype tts_reply = Tts_off | Tts_denied "reply option" | Tts_usage | Tts_fail | Voice_sent

text \<open>
  \<^verbatim>\<open>tts\<close>. \<open>enabled_and_allowed\<close> is the first test (the configuration switch and
  \<^verbatim>\<open>check_allowed_and_within_budget\<close>), \<open>speech\<close> the outcome of
  \<^verbatim>\<open>generate_speech\<close> with the text length it returns, and \<open>delivered\<close> the outcome of
  the calls between the generation and the debit (\<^verbatim>\<open>reply_voice\<close>, closing the file,
  the usage tracker). The coroutine \<^verbatim>\<open>_generate\<close> catches whatever is raised in it.
\<close>

definition tts ::
  "date \<Rightarrow> db \<Rightarrow> int \<Rightarrow> int \<Rightarrow> bool \<Rightarrow> str \<Rightarrow> int outcome \<Rightarrow> unit outcome
     \<Rightarrow> py_error + (db \<times> tts_reply)" where
  "tts today db chat_id from_user_id enabled_and_allowed tts_query speech delivered =
     (if \<not> enabled_and_allowed then Inr (db, Tts_off)
      else
        (case check_rate_limit db today chat_id Tts_rate of
           Inl err \<Rightarrow> Inl err
         | Inr (u, okay, r) \<Rightarrow>
             if \<not> okay then Inr (db, Tts_denied r)
             else if tts_query = [] then Inr (db, Tts_usage)
             else
               (case speech of
                  Raised \<Rightarrow> Inr (db, Tts_fail)
                | Returned text_length \<Rightarrow>
                    (case delivered of
                       Raised \<Rightarrow> Inr (db, Tts_fail)
                     | Returned x \<Rightarrow>
                         (case debit db from_user_id Tts_rate u text_length of
                            Inl err \<Rightarrow> Inr (db, Tts_fail)
                          | Inr db' \<Rightarrow> Inr (db', Voice_sent))))))"

text \<open>
  The store after a handler: an exception that leaves the handler has written nothing.
\<close>

definition store_after :: "db \<Rightarrow> py_error + (db \<times> 'a) \<Rightarrow> db" where
  "store_after db res = (case res of Inl err \<Rightarrow> db | Inr (db', x) \<Rightarrow> db')"

section \<open>Sample data\<close>

text \<open>
  A two-tier table, a trial account in a private chat, and a group chat in which that
  account writes; used to run the definitions on concrete input.
\<close>

definition sample_rates :: rates where
  "sample_rates =
     [(''base'', \<lparr>r_name = ''Base'', r_price = 490, r_gpt4_rate = 0, r_gpt35_rate = 100000,
          r_dalle_rate = 10, r_whisper_rate = 20, r_tts_rate = 3000\<rparr>),
      (''gpt-4'', \<lparr>r_name = ''Pro'', r_price = 990, r_gpt4_rate = 50000, r_gpt35_rate = 300000,
          r_dalle_rate = 30, r_whisper_rate = 60, r_tts_rate = 9000\<rparr>)]"

definition sample_user :: user where
  "sample_user =
     \<lparr>username = Some ''alice'', gpt4_rate = Some 0, gpt35_rate = Some 5, dalle_rate = Some (- 2),
      whisper_rate = Some 20, tts_rate = Some 3000, rate_end_date = Some 100,
      rate_type = Some ''base'', is_free = Some True, last_pay_id = Some 42,
      default_model = Some ''gpt35'', default_preset = Some ''assistant''\<rparr>"

definition sample_db :: db where
  "sample_db = Map.empty(7 \<mapsto> sample_user)"




text \<open>
  A private chat with short answers: no direct results, a cutoff of 15 characters and
  the length cap 4096.
\<close>

definition sample_env :: env where
  "sample_env =
     \<lparr>is_direct_result = (\<lambda>content. False), get_stream_cutoff_values = (\<lambda>content. 15),
      length_cap = 4096\<rparr>"

section \<open>Properties of the store and of the quota check\<close>

lemma update_user_field_Some:
  "get_user db cid = Some u \<Longrightarrow> fits_column w \<Longrightarrow>
     update_user_field db cid w = Inr (db(cid \<mapsto> setattr u w))"
  by (simp add: update_user_field_def get_user_def)


lemma get_user_sample: "get_user sample_db 7 = Some sample_user"
  by (simp add: get_user_def sample_db_def)

text \<open>
  C10: \<^verbatim>\<open>update_user_field\<close> for a \<^verbatim>\<open>chat_id\<close> that has no row returns, without an
  exception, the store as it was: no account is changed, no row is created (the keys
  are the same and the \<^verbatim>\<open>chat_id\<close> still has none), whatever the value is.
\<close>

theorem update_user_field_missing_noop:
  "get_user db cid = None \<Longrightarrow>
     update_user_field db cid w = Inr db
     \<and> (case update_user_field db cid w of
          Inl err \<Rightarrow> False
        | Inr db' \<Rightarrow> db' = db \<and> dom db' = dom db \<and> \<not> is_user_exists db' cid)"
  by (simp add: update_user_field_def get_user_def is_user_exists_def)

theorem update_user_field_missing_noop_witness:
  "get_user sample_db 8 = None
   \<and> update_user_field sample_db 8 (Rate Gpt35_rate 1000) = Inr sample_db
   \<and> \<not> is_user_exists sample_db 8"
proof -
  have h: "get_user sample_db 8 = None"
    by (simp add: get_user_def sample_db_def)
  show ?thesis
    using h update_user_field_missing_noop [OF h, of "Rate Gpt35_rate 1000"]
    by (simp add: is_user_exists_def)
qed

text \<open>
  C2: an account whose \<^verbatim>\<open>rate_end_date\<close> lies strictly before today is refused
  (\<^verbatim>\<open>okay\<close> is false) with the reply that the subscription has ended, for every
  resource kind and whatever the balances are.
\<close>

theorem check_rate_limit_expired:
  "get_user db cid = Some u \<Longrightarrow> rate_end_date u = Some d \<Longrightarrow> d < today \<Longrightarrow>
     check_rate_limit db today cid rt = Inr (u, False, Some Subscription_ended)"
  by (simp add: check_rate_limit_def)

theorem check_rate_limit_expired_witness:
  "get_user sample_db 7 = Some sample_user \<and> rate_end_date sample_user = Some 100
   \<and> (100::int) < 101
   \<and> check_rate_limit sample_db 101 7 Whisper_rate = Inr (sample_user, False, Some Subscription_ended)"
proof -
  have d: "rate_end_date sample_user = Some 100"
    by (simp add: sample_user_def)
  have l: "(100::int) < 101"
    by simp
  show ?thesis
    using get_user_sample d l
      check_rate_limit_expired [OF get_user_sample d l, of Whisper_rate]
    by simp
qed

text \<open>
  C5: an account that has not expired and whose balance for the resource kind is at most
  0 is refused (\<^verbatim>\<open>okay\<close> is false), and the reply says that the resource has run out:
  the tokens text of the second branch at balance 0, the text chosen by the resource
  kind below 0.
\<close>

theorem check_rate_limit_exhausted:
  "get_user db cid = Some u \<Longrightarrow> rate_end_date u = Some d \<Longrightarrow> \<not> d < today \<Longrightarrow>
   get_rate u rt = Some v \<Longrightarrow> v \<le> 0 \<Longrightarrow>
     check_rate_limit db today cid rt =
       Inr (u, False, Some (Ran_out (if v = 0 then Tokens else exhausted_text rt)))"
  by (simp add: check_rate_limit_def)

theorem check_rate_limit_exhausted_witness:
  "get_user sample_db 7 = Some sample_user \<and> rate_end_date sample_user = Some 100
   \<and> \<not> (100::int) < 50 \<and> get_rate sample_user Dalle_rate = Some (- 2) \<and> (- 2::int) \<le> 0
   \<and> check_rate_limit sample_db 50 7 Dalle_rate = Inr (sample_user, False, Some (Ran_out Images))"
proof -
  have d: "rate_end_date sample_user = Some 100"
    by (simp add: sample_user_def)
  have l: "\<not> (100::int) < 50"
    by simp
  have r: "get_rate sample_user Dalle_rate = Some (- 2)"
    by (simp add: sample_user_def)
  have v: "(- 2::int) \<le> 0"
    by simp
  show ?thesis
    using get_user_sample d l r v
      check_rate_limit_exhausted [OF get_user_sample d l r v]
    by simp
qed

section \<open>The ledger\<close>



text \<open>
  What an answered request writes is the debit: the store after \<^verbatim>\<open>prompt\<close> and after
  \<^verbatim>\<open>tts\<close>, when the check allows the request and every call returns, is the store
  after \<open>debit\<close> for the row of the chat, written under the id of the sender.
\<close>

lemma prompt_writes_debit:
  "get_user db chat_id = Some u \<Longrightarrow>
   check_rate_limit db today chat_id
     (if rate_type u = Some ''gpt-4'' then Gpt4_rate else Gpt35_rate) = Inr (u, True, None) \<Longrightarrow>
     store_after db
       (prompt e today db chat_id from_user_id False (No_stream (Returned t)) (Returned ()))
     = (case debit db from_user_id
               (if rate_type u = Some ''gpt-4'' then Gpt4_rate else Gpt35_rate) u t of
          Inl err \<Rightarrow> db
        | Inr db' \<Rightarrow> db')"
  by (simp add: prompt_def store_after_def wrap_with_indicator_def split: sum.splits)

lemma tts_writes_debit:
  "check_rate_limit db today chat_id Tts_rate = Inr (u, True, None) \<Longrightarrow> tts_query \<noteq> [] \<Longrightarrow>
     store_after db
       (tts today db chat_id from_user_id True tts_query (Returned text_length) (Returned ()))
     = (case debit db from_user_id Tts_rate u text_length of
          Inl err \<Rightarrow> db
        | Inr db' \<Rightarrow> db')"
  by (simp add: tts_def store_after_def split: sum.splits)






section \<open>Payments and renewal\<close>

lemma find_rate_None_iff:
  "find_rate rates summ = None \<longleftrightarrow> (\<forall>kr \<in> set rates. r_price (snd kr) \<noteq> summ)"
  by (induction rates summ rule: find_rate.induct) auto


lemma payment_writes:
  "get_user db cid = Some u \<Longrightarrow> rate_fits r \<Longrightarrow>
   update_user_fields db cid
     [Rate Gpt4_rate (r_gpt4_rate r), Rate Gpt35_rate (r_gpt35_rate r),
      Rate Dalle_rate (r_dalle_rate r), Rate Whisper_rate (r_whisper_rate r),
      Rate Tts_rate (r_tts_rate r), Rate_end_date t, Rate_type k, Is_free False,
      Last_pay_id p]
   = (db(cid \<mapsto> u\<lparr>gpt4_rate := Some (r_gpt4_rate r), gpt35_rate := Some (r_gpt35_rate r),
        dalle_rate := Some (r_dalle_rate r), whisper_rate := Some (r_whisper_rate r),
        tts_rate := Some (r_tts_rate r), rate_end_date := Some t,
        rate_type := Some k, is_free := Some False, last_pay_id := Some p\<rparr>), None)"
  by (simp add: update_user_field_def get_user_def rate_fits_def)

lemma check_pay_accept:
  assumes g: "get_user db uid = Some u"
    and a: "\<not> already_paid db uid pid \<or> notice = Raised"
    and f: "find_rate rates (py_int out_sum) = Some (key, r)"
    and r: "rate_fits r"
  shows "check_pay rates today db uid pid (State ''100'' out_sum) notice =
       (db(uid \<mapsto> u\<lparr>gpt4_rate := Some (r_gpt4_rate r), gpt35_rate := Some (r_gpt35_rate r),
            dalle_rate := Some (r_dalle_rate r), whisper_rate := Some (r_whisper_rate r),
            tts_rate := Some (r_tts_rate r), rate_end_date := Some (today + 30),
            rate_type := Some key, is_free := Some False, last_pay_id := Some pid\<rparr>),
        Inr (Payment_accepted (r_name r)))"
proof -
  have n: "\<not> (already_paid db uid pid \<and> notice \<noteq> Raised)"
    using a by blast
  show ?thesis
    unfolding check_pay_def
    by (simp only: op_state.case refl if_True if_not_P [OF n] Let_def f option.case prod.case
        payment_writes [OF g r])
qed

lemma check_pay_unchanged:
  "find_rate rates (py_int out_sum) = None \<Longrightarrow>
     fst (check_pay rates today db uid pid (State code out_sum) notice) = db"
  by (simp add: check_pay_def Let_def)

lemma check_pay_duplicate_noop:
  "get_user db uid = Some u \<Longrightarrow> last_pay_id u = Some pid \<Longrightarrow>
     check_pay rates today db uid pid (State ''100'' out_sum) (Returned ()) = (db, Inr Already_paid)"
  by (simp add: check_pay_def already_paid_def)





lemma sample_rates_fit: "rate_fits (snd (sample_rates ! 0))" "rate_fits (snd (sample_rates ! 1))"
  by (simp_all add: sample_rates_def rate_fits_def in_int4_def)

lemma find_rate_sample_990:
  "find_rate sample_rates (py_int 990) = Some (''gpt-4'', snd (sample_rates ! 1))"
  by (simp add: sample_rates_def py_int_def)

lemma find_rate_sample_fraction:
  "find_rate sample_rates (py_int (49099 / 100)) = Some (''base'', snd (sample_rates ! 0))"
  by (simp add: sample_rates_def py_int_def floor_eq_iff)

lemma already_paid_sample: "already_paid sample_db 7 42" "\<not> already_paid sample_db 7 43"
  by (simp_all add: already_paid_def get_user_sample sample_user_def)

text \<open>
  C1 fails on the code. The account 7 has \<^verbatim>\<open>last_pay_id = 42\<close>, an expiry on day 100 and
  5 tokens left; payment 42 is confirmed once more on day 90 (code 100, amount 990),
  and the send of the message that the invoice is already paid raises. The exception is
  caught by the \<^verbatim>\<open>except\<close> of the comparison, the \<^verbatim>\<open>return\<close> is skipped, and the
  account is renewed a second time: the balances are reset and the expiry moves to day
  120. When the send returns, the same confirmation leaves the store as it was.
\<close>

theorem duplicate_confirmation_renews_when_notice_raises:
  "already_paid sample_db 7 42
   \<and> check_pay sample_rates 90 sample_db 7 42 (State ''100'' 990) Raised =
        (sample_db(7 \<mapsto> sample_user\<lparr>gpt4_rate := Some 50000, gpt35_rate := Some 300000,
               dalle_rate := Some 30, whisper_rate := Some 60, tts_rate := Some 9000,
               rate_end_date := Some 120, rate_type := Some ''gpt-4'', is_free := Some False,
               last_pay_id := Some 42\<rparr>),
         Inr (Payment_accepted ''Pro''))
   \<and> check_pay sample_rates 90 sample_db 7 42 (State ''100'' 990) (Returned ())
       = (sample_db, Inr Already_paid)"
proof -
  have a: "\<not> already_paid sample_db 7 42 \<or> (Raised :: unit outcome) = Raised"
    by simp
  have l: "last_pay_id sample_user = Some 42"
    by (simp add: sample_user_def)
  show ?thesis
    using already_paid_sample(1)
      check_pay_accept [OF get_user_sample a find_rate_sample_990 sample_rates_fit(2), of 90]
      check_pay_duplicate_noop [OF get_user_sample l, of sample_rates 90 990]
    by (simp add: sample_rates_def)
qed

text \<open>
  C4 as stated fails. The gateway confirms the amount 490.99, which is the price of no
  tier (the prices are 490 and 990); \<^verbatim>\<open>int(float(...))\<close> makes 490 of it, and the account
  is renewed to the tier of that price.
\<close>

theorem fractional_amount_renews_counterexample:
  "(49099 / 100 :: rat) \<notin> of_int ` r_price ` snd ` set sample_rates
   \<and> check_pay sample_rates 50 sample_db 7 43 (State ''100'' (49099 / 100)) (Returned ()) =
        (sample_db(7 \<mapsto> sample_user\<lparr>gpt4_rate := Some 0, gpt35_rate := Some 100000,
               dalle_rate := Some 10, whisper_rate := Some 20, tts_rate := Some 3000,
               rate_end_date := Some 80, rate_type := Some ''base'', is_free := Some False,
               last_pay_id := Some 43\<rparr>),
         Inr (Payment_accepted ''Base''))"
proof -
  have a: "\<not> already_paid sample_db 7 43 \<or> Returned () = Raised"
    using already_paid_sample(2) by simp
  have n: "(49099 / 100 :: rat) \<notin> of_int ` r_price ` snd ` set sample_rates"
    by (simp add: sample_rates_def)
  show ?thesis
    using n check_pay_accept [OF get_user_sample a find_rate_sample_fraction sample_rates_fit(1), of 50]
    by (simp add: sample_rates_def)
qed

text \<open>
  C4, as the code has it. When the amount with its fraction dropped, as
  \<^verbatim>\<open>int(float(...))\<close> computes it, is the price of no configured tier, the confirmation
  leaves the store, and so every field of every account, as it was; a successful
  confirmation that goes on to the loop over the tiers only prints that integer.
\<close>

theorem check_pay_mismatch_unchanged:
  assumes "\<forall>kr \<in> set rates. r_price (snd kr) \<noteq> py_int out_sum"
  shows "fst (check_pay rates today db uid pid (State code out_sum) notice) = db
     \<and> (code = ''100'' \<and> (\<not> already_paid db uid pid \<or> notice = Raised) \<longrightarrow>
          snd (check_pay rates today db uid pid (State code out_sum) notice)
            = Inr (Sum_printed (py_int out_sum)))"
proof -
  from assms have n: "find_rate rates (py_int out_sum) = None"
    by (simp add: find_rate_None_iff)
  have "fst (check_pay rates today db uid pid (State code out_sum) notice) = db"
    using n by (rule check_pay_unchanged)
  moreover have "snd (check_pay rates today db uid pid (State code out_sum) notice)
      = Inr (Sum_printed (py_int out_sum))"
    if "code = ''100'' \<and> (\<not> already_paid db uid pid \<or> notice = Raised)"
    using that n by (auto simp add: check_pay_def Let_def)
  ultimately show ?thesis
    by blast
qed

lemma find_rate_sample_999: "\<forall>kr \<in> set sample_rates. r_price (snd kr) \<noteq> py_int (1999 / 2)"
  by (simp add: sample_rates_def py_int_def floor_eq_iff)

theorem check_pay_mismatch_unchanged_witness:
  "py_int (1999 / 2) = 999 \<and> find_rate sample_rates 999 = None
   \<and> \<not> already_paid sample_db 7 43
   \<and> check_pay sample_rates 50 sample_db 7 43 (State ''100'' (1999 / 2)) (Returned ())
       = (sample_db, Inr (Sum_printed 999))"
proof -
  have p: "py_int (1999 / 2) = 999"
    by (simp add: py_int_def floor_eq_iff)
  have f: "find_rate sample_rates 999 = None"
    by (simp add: sample_rates_def)
  have "check_pay sample_rates 50 sample_db 7 43 (State ''100'' (1999 / 2)) (Returned ())
      = (sample_db, Inr (Sum_printed 999))"
    using already_paid_sample(2) p
      check_pay_mismatch_unchanged [OF find_rate_sample_999, of 50 sample_db 7 43 "''100''"
        "Returned ()"]
    by (simp add: prod_eq_iff)
  then show ?thesis
    using p f already_paid_sample(2) by simp
qed




section \<open>Failed generations\<close>

text \<open>
  C9: when the generation raises, the chat handler and the speech handler leave the
  store, and so every balance, as it was: for \<^verbatim>\<open>prompt\<close> with a stream that raises
  (after any number of items) and with a reply coroutine that raises, and for
  \<^verbatim>\<open>tts\<close> when \<^verbatim>\<open>generate_speech\<close> raises. The debit is the last statement of the
  guarded block, after the call has returned.
\<close>

theorem failed_generation_costs_nothing:
  "store_after db (prompt e today db chat_id from_user_id group_ignored (Stream items True) tracker) = db
   \<and> store_after db (prompt e today db chat_id from_user_id group_ignored (No_stream Raised) tracker) = db
   \<and> store_after db (tts today db chat_id from_user_id enabled_and_allowed tts_query Raised delivered) = db"
proof (intro conjI)
  show "store_after db
      (prompt e today db chat_id from_user_id group_ignored (Stream items True) tracker) = db"
    by (simp add: prompt_def store_after_def
        split: option.splits sum.splits prod.splits loop_result.splits loop_state.splits)
  show "store_after db
      (prompt e today db chat_id from_user_id group_ignored (No_stream Raised) tracker) = db"
    by (simp add: prompt_def store_after_def wrap_with_indicator_def
        split: option.splits sum.splits prod.splits)
  show "store_after db
      (tts today db chat_id from_user_id enabled_and_allowed tts_query Raised delivered) = db"
    by (simp add: tts_def store_after_def split: sum.splits prod.splits)
qed

lemma check_sample_gpt35:
  "check_rate_limit sample_db 50 7 Gpt35_rate = Inr (sample_user, True, None)"
  by (simp add: check_rate_limit_def get_user_sample sample_user_def)

lemma check_sample_tts:
  "check_rate_limit sample_db 50 7 Tts_rate = Inr (sample_user, True, None)"
  by (simp add: check_rate_limit_def get_user_sample sample_user_def)

lemma rate_type_sample: "rate_type sample_user = Some ''base''"
  by (simp add: sample_user_def)

theorem failed_generation_costs_nothing_witness:
  "prompt sample_env 50 sample_db 7 7 False (No_stream Raised) (Returned ()) = Inr (sample_db, Chat_fail)
   \<and> store_after sample_db
         (prompt sample_env 50 sample_db 7 7 False (No_stream Raised) (Returned ())) = sample_db
   \<and> prompt sample_env 50 sample_db 7 7 False (No_stream (Returned 3)) (Returned ())
       = Inr (sample_db(7 \<mapsto> sample_user\<lparr>gpt35_rate := Some 2\<rparr>), Answered)
   \<and> tts 50 sample_db 7 7 True [104, 105] Raised (Returned ()) = Inr (sample_db, Tts_fail)
   \<and> store_after sample_db (tts 50 sample_db 7 7 True [104, 105] Raised (Returned ())) = sample_db"
proof -
  have p: "prompt sample_env 50 sample_db 7 7 False (No_stream Raised) (Returned ())
      = Inr (sample_db, Chat_fail)"
    by (simp add: prompt_def get_user_sample rate_type_sample check_sample_gpt35
        wrap_with_indicator_def)
  have g: "gpt35_rate sample_user = Some 5"
    by (simp add: sample_user_def)
  have d: "debit sample_db 7 Gpt35_rate sample_user 3
       = Inr (sample_db(7 \<mapsto> sample_user\<lparr>gpt35_rate := Some 2\<rparr>))"
    by (simp add: debit_def update_user_field_Some [OF get_user_sample] g in_int4_def)
  have q: "prompt sample_env 50 sample_db 7 7 False (No_stream (Returned 3)) (Returned ())
       = Inr (sample_db(7 \<mapsto> sample_user\<lparr>gpt35_rate := Some 2\<rparr>), Answered)"
    by (simp add: prompt_def get_user_sample rate_type_sample check_sample_gpt35
        wrap_with_indicator_def d)
  have t: "tts 50 sample_db 7 7 True [104, 105] Raised (Returned ()) = Inr (sample_db, Tts_fail)"
    by (simp add: tts_def check_sample_tts)
  show ?thesis
    using p q t
      failed_generation_costs_nothing [of sample_db sample_env 50 7 7 False "[]" "Returned ()"
        True "[104, 105]" "Returned ()"]
    by simp
qed

section \<open>The streaming loop\<close>

lemma split_into_chunks_Nil: "split_into_chunks cap [] = []"
  by (subst split_into_chunks.simps) simp

lemma split_into_chunks_short:
  "0 < cap \<Longrightarrow> txt \<noteq> [] \<Longrightarrow> length txt \<le> cap \<Longrightarrow> split_into_chunks cap txt = [txt]"
  by (subst split_into_chunks.simps) (simp add: split_into_chunks_Nil)

lemma is_blank_replicate: "is_blank (replicate n c) \<longleftrightarrow> n = 0 \<or> isspace c"
  by (auto simp add: is_blank_def list_all_iff)

lemma not_isspace_letters: "\<not> isspace 97" "\<not> isspace 98" "\<not> isspace 99"
  by (simp_all add: isspace_def)

lemma sample_env_simps:
  "is_direct_result sample_env c = False" "get_stream_cutoff_values sample_env c = 15"
  "length_cap sample_env = 4096"
  by (simp_all add: sample_env_def)

lemma chunks_sample:
  "0 < n \<Longrightarrow> n \<le> 4096 \<Longrightarrow> split_into_chunks 4096 (replicate n c) = [replicate n c]"
  by (rule split_into_chunks_short) auto

lemma stream_step_cutoff_path:
  fixes e :: env and content0 :: str
  defines "stream_chunks \<equiv> split_into_chunks (length_cap e) content0"
  defines "content \<equiv> (if length stream_chunks > 1 then last stream_chunks else content0)"
  assumes h: "\<not> is_direct_result e content0" "\<not> is_blank content0"
    "\<not> (length stream_chunks > 1 \<and> stream_chunk \<noteq> length stream_chunks - 1)"
    "i \<noteq> 0"
  shows "stream_step e (St i prev (Some m) backoff stream_chunk total_tokens)
           (Partial content0 tokens edit_res send_res delete_ok) =
     (if abs (int (length content) - int (length prev)) > get_stream_cutoff_values e content + backoff
         \<or> tokens \<noteq> Not_finished then
        (case edit_res of
           Edit_ok \<Rightarrow>
             Next (St (i + 1) content (Some m) backoff stream_chunk
                     (case tokens of Not_finished \<Rightarrow> total_tokens | Finished n \<Rightarrow> n))
               [Edit m content (Some (tokens \<noteq> Not_finished)), Sleep_short]
         | Retry_after d \<Rightarrow>
             Next (St i content (Some m) (backoff + 5) stream_chunk total_tokens)
               [Edit m content (Some (tokens \<noteq> Not_finished)), Sleep_retry_after d]
         | Timed_out \<Rightarrow>
             Next (St i content (Some m) (backoff + 5) stream_chunk total_tokens)
               [Edit m content (Some (tokens \<noteq> Not_finished)), Sleep_half]
         | Edit_failed \<Rightarrow>
             Next (St i content (Some m) (backoff + 5) stream_chunk total_tokens)
               [Edit m content (Some (tokens \<noteq> Not_finished))])
      else
        Next (St (i + 1) prev (Some m) backoff stream_chunk
                (case tokens of Not_finished \<Rightarrow> total_tokens | Finished n \<Rightarrow> n)) [])"
  using h unfolding stream_chunks_def content_def by (simp add: Let_def)

lemma stream_step_first_send:
  fixes e :: env and content0 :: str
  defines "stream_chunks \<equiv> split_into_chunks (length_cap e) content0"
  defines "content \<equiv> (if length stream_chunks > 1 then last stream_chunks else content0)"
  assumes "\<not> is_direct_result e content0" and "\<not> is_blank content0"
    and "\<not> (length stream_chunks > 1 \<and> stream_chunk \<noteq> length stream_chunks - 1)"
  shows "stream_step e (St 0 prev None backoff stream_chunk total_tokens)
           (Partial content0 tokens edit_res (Some m) delete_ok) =
         Next (St 1 prev (Some m) backoff stream_chunk
                 (case tokens of Not_finished \<Rightarrow> total_tokens | Finished n \<Rightarrow> n))
           [Send content]"
  using assms by (simp add: Let_def)


text \<open>
  C7, as the code has it. After the first send (\<^verbatim>\<open>i\<close> is not 0), for a partial that
  does not open a new message beyond the length cap, the iteration issues an edit
  exactly when the length of the new content differs from the length of \<^verbatim>\<open>prev\<close> by
  more than the cutoff plus the backoff, or the stream has signaled completion; it then
  records the content in \<^verbatim>\<open>prev\<close>, and otherwise leaves \<^verbatim>\<open>prev\<close> as it is. \<^verbatim>\<open>prev\<close> is
  the content of the last edit attempted in this way: the first send does not record
  what it rendered, so \<^verbatim>\<open>prev\<close> is still what it was (the empty string) after it.
\<close>

theorem edit_only_past_cutoff_of_prev:
  fixes e :: env and content0 :: str
  defines "stream_chunks \<equiv> split_into_chunks (length_cap e) content0"
  defines "content \<equiv> (if length stream_chunks > 1 then last stream_chunks else content0)"
  assumes h: "\<not> is_direct_result e content0" "\<not> is_blank content0"
    "\<not> (length stream_chunks > 1 \<and> stream_chunk \<noteq> length stream_chunks - 1)"
  shows "(i \<noteq> 0 \<longrightarrow>
       filter is_edit (step_calls (stream_step e (St i prev (Some m) backoff stream_chunk total_tokens)
           (Partial content0 tokens edit_res send_res delete_ok)))
         = (if abs (int (length content) - int (length prev))
                 > get_stream_cutoff_values e content + backoff
               \<or> tokens \<noteq> Not_finished
            then [Edit m content (Some (tokens \<noteq> Not_finished))] else [])
       \<and> map_option prev_of (step_state (stream_step e
             (St i prev (Some m) backoff stream_chunk total_tokens)
             (Partial content0 tokens edit_res send_res delete_ok)))
         = Some (if abs (int (length content) - int (length prev))
                 > get_stream_cutoff_values e content + backoff
               \<or> tokens \<noteq> Not_finished
            then content else prev))
     \<and> stream_step e (St 0 prev None backoff stream_chunk total_tokens)
           (Partial content0 tokens edit_res (Some m) delete_ok)
         = Next (St 1 prev (Some m) backoff stream_chunk
                 (case tokens of Not_finished \<Rightarrow> total_tokens | Finished n \<Rightarrow> n))
             [Send content]"
proof (intro conjI impI)
  assume i: "i \<noteq> 0"
  note step = stream_step_cutoff_path [OF h(1,2) h(3) [unfolded stream_chunks_def] i,
      folded stream_chunks_def, folded content_def]
  show "filter is_edit (step_calls (stream_step e (St i prev (Some m) backoff stream_chunk total_tokens)
           (Partial content0 tokens edit_res send_res delete_ok)))
         = (if abs (int (length content) - int (length prev))
                 > get_stream_cutoff_values e content + backoff
               \<or> tokens \<noteq> Not_finished
            then [Edit m content (Some (tokens \<noteq> Not_finished))] else [])"
    unfolding step by (cases edit_res) simp_all
  show "map_option prev_of (step_state (stream_step e
             (St i prev (Some m) backoff stream_chunk total_tokens)
             (Partial content0 tokens edit_res send_res delete_ok)))
         = Some (if abs (int (length content) - int (length prev))
                 > get_stream_cutoff_values e content + backoff
               \<or> tokens \<noteq> Not_finished
            then content else prev)"
    unfolding step by (cases edit_res) simp_all
next
  show "stream_step e (St 0 prev None backoff stream_chunk total_tokens)
           (Partial content0 tokens edit_res (Some m) delete_ok)
         = Next (St 1 prev (Some m) backoff stream_chunk
                 (case tokens of Not_finished \<Rightarrow> total_tokens | Finished n \<Rightarrow> n))
             [Send content]"
    using stream_step_first_send [OF h(1,2) h(3) [unfolded stream_chunks_def]]
    unfolding stream_chunks_def content_def by simp
qed



text \<open>
  C7 as stated fails. The first partial (20 characters) is sent; the second (21
  characters, not finished) differs from the rendered content by one character, which is
  below the cutoff of 15, and is edited in all the same, because it is compared with the
  empty \<^verbatim>\<open>prev\<close>.
\<close>

theorem edit_after_first_send_counterexample:
  "stream_loop sample_env initial_state []
     [Partial (replicate 20 97) Not_finished Edit_ok (Some 1) True,
      Partial (replicate 21 97) Not_finished Edit_ok None True]
   = Loop_done (St 2 (replicate 21 97) (Some 1) 0 0 0)
       [Send (replicate 20 97), Edit 1 (replicate 21 97) (Some False), Sleep_short]
   \<and> \<not> abs (int (length (replicate 21 (97::nat))) - int (length (replicate 20 (97::nat))))
         > get_stream_cutoff_values sample_env (replicate 21 97) + 0"
  by (simp add: initial_state_def sample_env_simps chunks_sample is_blank_replicate
      not_isspace_letters Let_def)


lemma sample_no_overflow:
  "0 < n \<Longrightarrow> n \<le> 4096 \<Longrightarrow>
     \<not> (length (split_into_chunks (length_cap sample_env) (replicate n c)) > 1
        \<and> sc \<noteq> length (split_into_chunks (length_cap sample_env) (replicate n c)) - 1)"
  by (simp add: sample_env_simps chunks_sample)

theorem edit_only_past_cutoff_of_prev_witness:
  "\<not> is_direct_result sample_env (replicate 21 97) \<and> \<not> is_blank (replicate 21 97)
   \<and> filter is_edit (step_calls (stream_step sample_env (St 1 [] (Some 1) 0 0 0)
          (Partial (replicate 21 97) Not_finished Edit_ok None True)))
       = [Edit 1 (replicate 21 97) (Some False)]
   \<and> filter is_edit (step_calls (stream_step sample_env (St 2 (replicate 21 97) (Some 1) 0 0 0)
          (Partial (replicate 30 97) Not_finished Edit_ok None True)))
       = []
   \<and> stream_step sample_env (St 0 [] None 0 0 0)
          (Partial (replicate 21 97) Not_finished Edit_ok (Some 1) True)
       = Next (St 1 [] (Some 1) 0 0 0) [Send (replicate 21 97)]"
proof -
  have d: "\<not> is_direct_result sample_env (replicate 21 97)"
      "\<not> is_direct_result sample_env (replicate 30 97)"
    by (simp_all add: sample_env_simps)
  have b: "\<not> is_blank (replicate 21 97)" "\<not> is_blank (replicate 30 97)"
    by (simp_all add: is_blank_replicate not_isspace_letters)
  have o: "\<not> (length (split_into_chunks (length_cap sample_env) (replicate 21 97)) > 1
        \<and> 0 \<noteq> length (split_into_chunks (length_cap sample_env) (replicate 21 97)) - 1)"
     "\<not> (length (split_into_chunks (length_cap sample_env) (replicate 30 97)) > 1
        \<and> 0 \<noteq> length (split_into_chunks (length_cap sample_env) (replicate 30 97)) - 1)"
    by (rule sample_no_overflow; simp)+
  show ?thesis
    using d b
      edit_only_past_cutoff_of_prev [OF d(1) b(1) o(1), where i = 1 and prev = "[]" and m = 1
        and backoff = 0 and total_tokens = 0 and tokens = Not_finished and edit_res = Edit_ok
        and send_res = None and delete_ok = True]
      edit_only_past_cutoff_of_prev [OF d(2) b(2) o(2), where i = 2 and prev = "replicate 21 97"
        and m = 1 and backoff = 0 and total_tokens = 0 and tokens = Not_finished
        and edit_res = Edit_ok and send_res = None and delete_ok = True]
    by (simp add: sample_env_simps chunks_sample)
qed


end
